theory Spec2Isabelle
  imports
    Complex_Main
    "HOL-Library.Multiset"
    "HOL-Library.Char_ord"
    "HOL-Library.List_Lexorder"
begin

section \<open>Python values\<close>

text \<open>
  The program is \<^verbatim>\<open>skill/scripts/x_search.py\<close>. Its data are decoded JSON documents:
  \<^verbatim>\<open>Dict[str, Any]\<close>. A float is a rational, or one of the three values that are no
  number (\<^verbatim>\<open>json.loads\<close> reads \<^verbatim>\<open>NaN\<close>, \<^verbatim>\<open>Infinity\<close> and \<^verbatim>\<open>1e999\<close>). A dict is an
  association list read with \<open>map_of\<close>. A string is a list of bytes (UTF-8); the order of
  strings is the lexicographic order of their bytes, which on UTF-8 is the order of the
  code points Python compares.
\<close>

datatype pyfloat = NaN | PosInf | NegInf | Finite rat

datatype json =
    JNull
  | JBool bool
  | JInt int
  | JFloat pyfloat
  | JStr string
  | JList "json list"
  | JDict "(string \<times> json) list"

text \<open>
  Exceptions are values: a class and the text \<^verbatim>\<open>str(exc)\<close>. Only subclasses of
  \<^verbatim>\<open>Exception\<close> are listed. \<^verbatim>\<open>JSONDecodeError\<close> and \<^verbatim>\<open>UnicodeError\<close> are subclasses of
  \<^verbatim>\<open>ValueError\<close>; \<^verbatim>\<open>OverflowError\<close> is not.
\<close>

datatype exn_class =
    XRadarError
  | ValueError
  | JSONDecodeError
  | UnicodeError
  | TypeError
  | AttributeError
  | OverflowError
  | OSError
  | OtherError string

datatype exn = Exn exn_class string

fun is_ValueError :: "exn \<Rightarrow> bool" where
  "is_ValueError (Exn c m) = (c = ValueError \<or> c = JSONDecodeError \<or> c = UnicodeError)"

fun is_TypeError :: "exn \<Rightarrow> bool" where
  "is_TypeError (Exn c m) = (c = TypeError)"

fun is_XRadarError :: "exn \<Rightarrow> bool" where
  "is_XRadarError (Exn c m) = (c = XRadarError)"

fun class_name :: "exn_class \<Rightarrow> string" where
  "class_name XRadarError = ''XRadarError''"
| "class_name ValueError = ''ValueError''"
| "class_name JSONDecodeError = ''JSONDecodeError''"
| "class_name UnicodeError = ''UnicodeError''"
| "class_name TypeError = ''TypeError''"
| "class_name AttributeError = ''AttributeError''"
| "class_name OverflowError = ''OverflowError''"
| "class_name OSError = ''OSError''"
| "class_name (OtherError n) = n"

fun exn_message :: "exn \<Rightarrow> string" where
  "exn_message (Exn c m) = m"

fun exn_type_name :: "exn \<Rightarrow> string" where
  "exn_type_name (Exn c m) = class_name c"

text \<open>
  The library functions the program calls and does not define are parameters: the
  SHA-256 hex digest, the JSON codec, \<^verbatim>\<open>int()\<close> and \<^verbatim>\<open>float()\<close> on a string (\<open>None\<close>,
  or the message, where they raise \<^verbatim>\<open>ValueError\<close>), \<^verbatim>\<open>str()\<close> of a value that is not a
  string, \<^verbatim>\<open>urllib.parse.quote\<close> and \<^verbatim>\<open>urlencode\<close>, and the \<^verbatim>\<open>datetime\<close> arithmetic
  (a \<^verbatim>\<open>timedelta\<close> is a number of microseconds).
\<close>

record pylib =
  sha256_hexdigest :: "string \<Rightarrow> string"
  json_loads :: "string \<Rightarrow> json option"
  json_dumps :: "json \<Rightarrow> string"
  int_of_str :: "string \<Rightarrow> int option"
  float_of_str :: "string \<Rightarrow> string + pyfloat"
  repr :: "json \<Rightarrow> string"
  quote :: "string \<Rightarrow> string"
  urlencode :: "(string \<times> string) list \<Rightarrow> string"
  timedelta_hours :: "pyfloat \<Rightarrow> exn + int"
  timedelta_days :: "pyfloat \<Rightarrow> exn + int"
  iso_utc_before_now :: "int \<Rightarrow> int \<Rightarrow> exn + string"

fun truthy :: "json \<Rightarrow> bool" where
  "truthy JNull = False"
| "truthy (JBool b) = b"
| "truthy (JInt n) = (n \<noteq> 0)"
| "truthy (JFloat f) = (f \<noteq> Finite 0)"
| "truthy (JStr s) = (s \<noteq> [])"
| "truthy (JList xs) = (xs \<noteq> [])"
| "truthy (JDict kvs) = (kvs \<noteq> [])"

definition py_or :: "json \<Rightarrow> json \<Rightarrow> json" where
  "py_or a b = (if truthy a then a else b)"

fun type_name :: "json \<Rightarrow> string" where
  "type_name JNull = ''NoneType''"
| "type_name (JBool b) = ''bool''"
| "type_name (JInt n) = ''int''"
| "type_name (JFloat f) = ''float''"
| "type_name (JStr s) = ''str''"
| "type_name (JList xs) = ''list''"
| "type_name (JDict kvs) = ''dict''"

definition sq :: string where
  "sq = [CHR 0x27]"

definition quoted :: "string \<Rightarrow> string" where
  "quoted s = sq @ s @ sq"

definition no_attribute :: "json \<Rightarrow> string \<Rightarrow> exn" where
  "no_attribute v a =
     Exn AttributeError (quoted (type_name v) @ '' object has no attribute '' @ quoted a)"

text \<open>\<^verbatim>\<open>v.get(k)\<close>: the value, \<^verbatim>\<open>None\<close> for a missing key, \<^verbatim>\<open>AttributeError\<close> when \<open>v\<close> is
  no dict (a list, a string and a number have no \<^verbatim>\<open>get\<close>).\<close>

fun py_get :: "json \<Rightarrow> string \<Rightarrow> exn + json" where
  "py_get (JDict kvs) k = Inr (case map_of kvs k of None \<Rightarrow> JNull | Some v \<Rightarrow> v)"
| "py_get v k = Inl (no_attribute v ''get'')"

text \<open>\<^verbatim>\<open>v.get(k, {})\<close>: the default stands for a missing key only.\<close>

fun py_get_default :: "json \<Rightarrow> string \<Rightarrow> json \<Rightarrow> exn + json" where
  "py_get_default (JDict kvs) k d = Inr (case map_of kvs k of None \<Rightarrow> d | Some v \<Rightarrow> v)"
| "py_get_default v k d = Inl (no_attribute v ''get'')"

definition toward_zero :: "rat \<Rightarrow> int" where
  "toward_zero r = (if 0 \<le> r then \<lfloor>r\<rfloor> else \<lceil>r\<rceil>)"

definition int_type_error :: "json \<Rightarrow> exn" where
  "int_type_error v =
     Exn TypeError
       (''int() argument must be a string, a bytes-like object or a real number, not ''
        @ quoted (type_name v))"

text \<open>\<^verbatim>\<open>int(v)\<close>.\<close>

fun py_int :: "pylib \<Rightarrow> json \<Rightarrow> exn + int" where
  "py_int L JNull = Inl (int_type_error JNull)"
| "py_int L (JBool b) = Inr (if b then 1 else 0)"
| "py_int L (JInt n) = Inr n"
| "py_int L (JFloat NaN) = Inl (Exn ValueError ''cannot convert float NaN to integer'')"
| "py_int L (JFloat PosInf) = Inl (Exn OverflowError ''cannot convert float infinity to integer'')"
| "py_int L (JFloat NegInf) = Inl (Exn OverflowError ''cannot convert float infinity to integer'')"
| "py_int L (JFloat (Finite r)) = Inr (toward_zero r)"
| "py_int L (JStr s) =
     (case int_of_str L s of
        None \<Rightarrow> Inl (Exn ValueError ''invalid literal for int() with base 10'')
      | Some n \<Rightarrow> Inr n)"
| "py_int L (JList xs) = Inl (int_type_error (JList xs))"
| "py_int L (JDict kvs) = Inl (int_type_error (JDict kvs))"

text \<open>\<^verbatim>\<open>str(v)\<close>.\<close>

fun py_str :: "pylib \<Rightarrow> json \<Rightarrow> string" where
  "py_str L (JStr s) = s"
| "py_str L v = repr L v"

text \<open>\<^verbatim>\<open>list(v)\<close>: a dict gives its keys, a string its characters, a number is not
  iterable.\<close>

fun py_list :: "json \<Rightarrow> exn + json list" where
  "py_list (JList xs) = Inr xs"
| "py_list (JDict kvs) = Inr (map (\<lambda>kv. JStr (fst kv)) kvs)"
| "py_list (JStr s) = Inr (map (\<lambda>c. JStr [c]) s)"
| "py_list v = Inl (Exn TypeError (quoted (type_name v) @ '' object is not iterable''))"

fun py_len :: "json \<Rightarrow> exn + nat" where
  "py_len (JList xs) = Inr (length xs)"
| "py_len (JDict kvs) = Inr (length kvs)"
| "py_len (JStr s) = Inr (length s)"
| "py_len v = Inl (Exn TypeError (''object of type '' @ quoted (type_name v) @ '' has no len()''))"

text \<open>\<^verbatim>\<open>s.lower()\<close> on ASCII: a capital letter gets bit 5 set, which adds 32 to its
  code; every other byte stays (the letters beyond ASCII that Python lowers as well are
  left as they are).\<close>

definition lower_char :: "char \<Rightarrow> char" where
  "lower_char c =
     (if CHR ''A'' \<le> c \<and> c \<le> CHR ''Z''
      then Char (digit0 c) (digit1 c) (digit2 c) (digit3 c) (digit4 c) True (digit6 c) (digit7 c)
      else c)"

definition lower :: "string \<Rightarrow> string" where
  "lower s = map lower_char s"

section \<open>Metrics, filtering and ranking\<close>

text \<open>
  \<^verbatim>\<open>
  def _metric(tweet, key):
      metrics = tweet.get("public_metrics") or {}
      val = metrics.get(key)
      try:
          return int(val or 0)
      except (TypeError, ValueError):
          return 0
  \<close>
\<close>

definition metric :: "pylib \<Rightarrow> json \<Rightarrow> string \<Rightarrow> exn + int" where
  "metric L tweet key =
     (case py_get tweet ''public_metrics'' of
        Inl e \<Rightarrow> Inl e
      | Inr pm \<Rightarrow>
          (case py_get (py_or pm (JDict [])) key of
             Inl e \<Rightarrow> Inl e
           | Inr val \<Rightarrow>
               (case py_int L (py_or val (JInt 0)) of
                  Inl e \<Rightarrow> (if is_TypeError e \<or> is_ValueError e then Inr 0 else Inl e)
                | Inr n \<Rightarrow> Inr n)))"

text \<open>\<^verbatim>\<open>str(tweet.get("created_at") or "")\<close>\<close>

definition created_at :: "pylib \<Rightarrow> json \<Rightarrow> exn + string" where
  "created_at L tweet =
     (case py_get tweet ''created_at'' of
        Inl e \<Rightarrow> Inl e
      | Inr v \<Rightarrow> Inr (py_str L (py_or v (JStr ''''))))"

text \<open>
  \<^verbatim>\<open>
  def _sort_key(tweet, sort):
      s = sort.lower()
      if s == "likes":
          return (_metric(tweet, "like_count"), _metric(tweet, "reply_count"), _created_at(tweet))
      if s == "replies":
          return (_metric(tweet, "reply_count"), _metric(tweet, "like_count"), _created_at(tweet))
      if s == "retweets":
          return (_metric(tweet, "retweet_count"), _metric(tweet, "like_count"), _created_at(tweet))
      return (_created_at(tweet),)
  \<close>
  The key is a tuple of three components or of one. Python compares tuples
  lexicographically; one sort compares keys of one shape only (a tuple of one with a
  tuple of three would compare a string with an integer and raise), so the order between
  the two shapes is never consulted: it is fixed here to make the order total.
\<close>

datatype sort_tuple = Key1 string | Key3 int int string

fun tuple_le :: "sort_tuple \<Rightarrow> sort_tuple \<Rightarrow> bool" where
  "tuple_le (Key3 a b c) (Key3 a' b' c') = (a < a' \<or> (a = a' \<and> (b < b' \<or> (b = b' \<and> c \<le> c'))))"
| "tuple_le (Key1 c) (Key1 c') = (c \<le> c')"
| "tuple_le (Key1 c) (Key3 a' b' c') = True"
| "tuple_le (Key3 a b c) (Key1 c') = False"

instantiation sort_tuple :: linorder
begin

definition less_eq_sort_tuple :: "sort_tuple \<Rightarrow> sort_tuple \<Rightarrow> bool" where
  "less_eq_sort_tuple x y = tuple_le x y"

definition less_sort_tuple :: "sort_tuple \<Rightarrow> sort_tuple \<Rightarrow> bool" where
  "less_sort_tuple x y = (tuple_le x y \<and> \<not> tuple_le y x)"

instance
proof
  fix x y z :: sort_tuple
  show "(x < y) = (x \<le> y \<and> \<not> y \<le> x)"
    by (simp add: less_sort_tuple_def less_eq_sort_tuple_def)
  show "x \<le> x"
    by (cases x) (simp_all add: less_eq_sort_tuple_def)
  show "x \<le> y \<Longrightarrow> y \<le> z \<Longrightarrow> x \<le> z"
    by (cases x; cases y; cases z) (auto simp: less_eq_sort_tuple_def)
  show "x \<le> y \<Longrightarrow> y \<le> x \<Longrightarrow> x = y"
    by (cases x; cases y) (auto simp: less_eq_sort_tuple_def)
  show "x \<le> y \<or> y \<le> x"
    by (cases x; cases y) (auto simp: less_eq_sort_tuple_def)
qed

end

definition key3 :: "pylib \<Rightarrow> json \<Rightarrow> string \<Rightarrow> string \<Rightarrow> exn + sort_tuple" where
  "key3 L tweet k1 k2 =
     (case metric L tweet k1 of
        Inl e \<Rightarrow> Inl e
      | Inr a \<Rightarrow>
          (case metric L tweet k2 of
             Inl e \<Rightarrow> Inl e
           | Inr b \<Rightarrow>
               (case created_at L tweet of
                  Inl e \<Rightarrow> Inl e
                | Inr c \<Rightarrow> Inr (Key3 a b c))))"

definition sort_key_of :: "pylib \<Rightarrow> json \<Rightarrow> string \<Rightarrow> exn + sort_tuple" where
  "sort_key_of L tweet mode =
     (let s = lower mode in
      if s = ''likes'' then key3 L tweet ''like_count'' ''reply_count''
      else if s = ''replies'' then key3 L tweet ''reply_count'' ''like_count''
      else if s = ''retweets'' then key3 L tweet ''retweet_count'' ''like_count''
      else (case created_at L tweet of Inl e \<Rightarrow> Inl e | Inr c \<Rightarrow> Inr (Key1 c)))"

text \<open>
  \<^verbatim>\<open>
  def _filter_tweets(tweets, *, min_likes=0, min_replies=0, min_retweets=0):
      out = []
      for t in tweets:
          if _metric(t, "like_count") < min_likes:
              continue
          if _metric(t, "reply_count") < min_replies:
              continue
          if _metric(t, "retweet_count") < min_retweets:
              continue
          out.append(t)
      return out
  \<close>
  \<open>keep\<close> is one turn of the loop: whether \<open>t\<close> is appended, or the exception
  that ends the call. A later metric is not read once an earlier one is below its
  minimum.
\<close>

definition keep :: "pylib \<Rightarrow> int \<Rightarrow> int \<Rightarrow> int \<Rightarrow> json \<Rightarrow> exn + bool" where
  "keep L min_likes min_replies min_retweets t =
     (case metric L t ''like_count'' of
        Inl e \<Rightarrow> Inl e
      | Inr a \<Rightarrow>
          if a < min_likes then Inr False
          else (case metric L t ''reply_count'' of
                  Inl e \<Rightarrow> Inl e
                | Inr b \<Rightarrow>
                    if b < min_replies then Inr False
                    else (case metric L t ''retweet_count'' of
                            Inl e \<Rightarrow> Inl e
                          | Inr c \<Rightarrow> if c < min_retweets then Inr False else Inr True)))"

fun filter_tweets :: "pylib \<Rightarrow> json list \<Rightarrow> int \<Rightarrow> int \<Rightarrow> int \<Rightarrow> exn + json list" where
  "filter_tweets L [] min_likes min_replies min_retweets = Inr []"
| "filter_tweets L (t # ts) min_likes min_replies min_retweets =
     (case keep L min_likes min_replies min_retweets t of
        Inl e \<Rightarrow> Inl e
      | Inr k \<Rightarrow>
          (case filter_tweets L ts min_likes min_replies min_retweets of
             Inl e \<Rightarrow> Inl e
           | Inr out \<Rightarrow> Inr (if k then t # out else out)))"

text \<open>
  \<^verbatim>\<open>tweets.sort(key=lambda t: _sort_key(t, sort), reverse=True)\<close>: the keys are computed
  first, one per item and in order (the first exception ends the call); the list is
  reversed, sorted stably in ascending order of the keys, and reversed again, which is
  how \<^verbatim>\<open>list.sort\<close> keeps the sort stable under \<^verbatim>\<open>reverse=True\<close>.
\<close>

fun map_exn :: "('a \<Rightarrow> exn + 'b) \<Rightarrow> 'a list \<Rightarrow> exn + 'b list" where
  "map_exn f [] = Inr []"
| "map_exn f (x # xs) =
     (case f x of
        Inl e \<Rightarrow> Inl e
      | Inr y \<Rightarrow> (case map_exn f xs of Inl e \<Rightarrow> Inl e | Inr ys \<Rightarrow> Inr (y # ys)))"

definition sort_reverse :: "('k::linorder \<times> 'a) list \<Rightarrow> ('k \<times> 'a) list" where
  "sort_reverse kxs = rev (sort_key fst (rev kxs))"

definition sort_tweets :: "pylib \<Rightarrow> string \<Rightarrow> json list \<Rightarrow> exn + json list" where
  "sort_tweets L mode tweets =
     (case map_exn (\<lambda>t. sort_key_of L t mode) tweets of
        Inl e \<Rightarrow> Inl e
      | Inr ks \<Rightarrow> Inr (map snd (sort_reverse (zip ks tweets))))"

section \<open>The world outside the process\<close>

text \<open>
  A cache file is missing, or cannot be examined (\<^verbatim>\<open>exists()\<close> or \<^verbatim>\<open>stat()\<close> raises), or
  has a modification time (microseconds since the epoch) and a content that
  \<^verbatim>\<open>read_text\<close> returns or fails to read.
\<close>

datatype fnode = NoFile | Inaccessible exn | File int "exn + string"

text \<open>
  What \<^verbatim>\<open>urlopen(req, timeout=20)\<close> followed by \<^verbatim>\<open>resp.read().decode("utf-8")\<close> does for a
  URL: the decoded body; an \<^verbatim>\<open>HTTPError\<close> with its status and reason as printed and the
  detail the handler extracts from the error body (lines 119 to 136 of the source, not
  modelled further); a \<^verbatim>\<open>URLError\<close> with its reason; a \<^verbatim>\<open>TimeoutError\<close>; or any other
  exception, which \<^verbatim>\<open>_get\<close> does not catch.
\<close>

datatype net_outcome =
    Body string
  | HTTPError string string string
  | URLError string
  | TimeoutError
  | Raises exn

text \<open>
  The environment variables, the clock (microseconds), the cache directory
  \<^verbatim>\<open>CACHE_DIR\<close> and its files, the writes that fail (for a path and a text: the exception
  of \<^verbatim>\<open>mkdir\<close> or \<^verbatim>\<open>write_text\<close>, and what is left at the path), the network, and the
  requests sent so far.
\<close>

record world =
  env_X_BEARER_TOKEN :: "string option"
  env_TWITTER_BEARER_TOKEN :: "string option"
  now :: int
  cache_dir :: string
  files :: "string \<Rightarrow> fnode"
  failing_write :: "string \<Rightarrow> string \<Rightarrow> (exn \<times> fnode) option"
  urlopen :: "string \<Rightarrow> net_outcome"
  requests_sent :: "string list"

definition API :: string where
  "API = ''https://api.x.com/2''"

definition COST_POST_READ_USD :: rat where
  "COST_POST_READ_USD = 5 / 1000"

definition COST_USER_LOOKUP_USD :: rat where
  "COST_USER_LOOKUP_USD = 10 / 1000"

definition PRICING_LAST_REVIEWED_UTC :: string where
  "PRICING_LAST_REVIEWED_UTC = ''2026-02-13''"

text \<open>
  \<^verbatim>\<open>
  def _bearer():
      token = os.getenv("X_BEARER_TOKEN") or os.getenv("TWITTER_BEARER_TOKEN")
      if not token:
          raise XRadarError("Missing X_BEARER_TOKEN env var")
      return token
  \<close>
\<close>

definition bearer :: "world \<Rightarrow> exn + string" where
  "bearer w =
     (let token =
        (case env_X_BEARER_TOKEN w of
           None \<Rightarrow> env_TWITTER_BEARER_TOKEN w
         | Some t \<Rightarrow> if t \<noteq> [] then Some t else env_TWITTER_BEARER_TOKEN w)
      in case token of
           None \<Rightarrow> Inl (Exn XRadarError ''Missing X_BEARER_TOKEN env var'')
         | Some t \<Rightarrow>
             if t = [] then Inl (Exn XRadarError ''Missing X_BEARER_TOKEN env var'')
             else Inr t)"

section \<open>The cache store\<close>

text \<open>\<^verbatim>\<open>hashlib.sha256(url.encode("utf-8")).hexdigest()\<close>\<close>

definition cache_key :: "pylib \<Rightarrow> string \<Rightarrow> string" where
  "cache_key L url = sha256_hexdigest L url"

definition cache_path :: "pylib \<Rightarrow> world \<Rightarrow> string \<Rightarrow> string" where
  "cache_path L w url = cache_dir w @ ''/'' @ cache_key L url @ ''.json''"

text \<open>
  \<^verbatim>\<open>
  def _read_cache(url, ttl_seconds):
      try:
          p = _cache_path(url)
          if not p.exists():
              return None
          age = (datetime.now(timezone.utc) - datetime.fromtimestamp(p.stat().st_mtime, tz=timezone.utc)).total_seconds()
          if age > ttl_seconds:
              return None
          return json.loads(p.read_text(encoding="utf-8"))
      except Exception:
          return None
  \<close>
  \<open>read_cache_try\<close> is the body of the \<^verbatim>\<open>try\<close>, \<open>read_cache\<close> the function. Python's
  \<^verbatim>\<open>None\<close> is \<open>JNull\<close>: a file that holds \<^verbatim>\<open>null\<close> reads as \<^verbatim>\<open>None\<close> too.
\<close>

definition read_cache_try :: "pylib \<Rightarrow> world \<Rightarrow> string \<Rightarrow> int \<Rightarrow> exn + json" where
  "read_cache_try L w url ttl_seconds =
     (case files w (cache_path L w url) of
        NoFile \<Rightarrow> Inr JNull
      | Inaccessible e \<Rightarrow> Inl e
      | File mtime content \<Rightarrow>
          if now w - mtime > ttl_seconds * 1000000 then Inr JNull
          else (case content of
                  Inl e \<Rightarrow> Inl e
                | Inr text \<Rightarrow>
                    (case json_loads L text of
                       None \<Rightarrow> Inl (Exn JSONDecodeError ''Expecting value'')
                     | Some v \<Rightarrow> Inr v)))"

definition read_cache :: "pylib \<Rightarrow> world \<Rightarrow> string \<Rightarrow> int \<Rightarrow> exn + json" where
  "read_cache L w url ttl_seconds =
     (case read_cache_try L w url ttl_seconds of
        Inl e \<Rightarrow> Inr JNull
      | Inr v \<Rightarrow> Inr v)"

text \<open>
  \<^verbatim>\<open>
  def _write_cache(url, obj):
      try:
          CACHE_DIR.mkdir(parents=True, exist_ok=True)
          _cache_path(url).write_text(json.dumps(obj, ensure_ascii=False), encoding="utf-8")
      except Exception:
          pass
  \<close>
\<close>

definition write_cache_try :: "pylib \<Rightarrow> world \<Rightarrow> string \<Rightarrow> json \<Rightarrow> (exn + unit) \<times> world" where
  "write_cache_try L w url obj =
     (let p = cache_path L w url; text = json_dumps L obj in
      case failing_write w p text of
        Some (e, left) \<Rightarrow> (Inl e, w\<lparr>files := (files w)(p := left)\<rparr>)
      | None \<Rightarrow> (Inr (), w\<lparr>files := (files w)(p := File (now w) (Inr text))\<rparr>))"

definition write_cache :: "pylib \<Rightarrow> world \<Rightarrow> string \<Rightarrow> json \<Rightarrow> (exn + unit) \<times> world" where
  "write_cache L w url obj =
     (case write_cache_try L w url obj of
        (Inl e, w') \<Rightarrow> (Inr (), w')
      | (Inr u, w') \<Rightarrow> (Inr (), w'))"

section \<open>The fetcher\<close>

text \<open>
  \<^verbatim>\<open>
  def _get(url, *, cache_ttl_seconds=900, no_cache=False):
      if not no_cache and cache_ttl_seconds > 0:
          cached = _read_cache(url, cache_ttl_seconds)
          if cached is not None:
              return cached, True
      req = urllib.request.Request(url)
      req.add_header("Authorization", f"Bearer {_bearer()}")
      ...
      try:
          with urllib.request.urlopen(req, timeout=20) as resp:
              data = resp.read().decode("utf-8")
      except urllib.error.HTTPError as exc:
          ...
          raise XRadarError(f"X API request failed ({exc.code} {exc.reason}): {detail}") from None
      except urllib.error.URLError as exc:
          raise XRadarError(f"Network error while calling X API: {exc.reason}") from None
      except TimeoutError:
          raise XRadarError("Request to X API timed out") from None
      try:
          obj = json.loads(data)
      except json.JSONDecodeError:
          raise XRadarError("X API returned invalid JSON response") from None
      if not no_cache and cache_ttl_seconds > 0:
          _write_cache(url, obj)
      return obj, False
  \<close>
  \<open>consult_cache\<close> is the first \<^verbatim>\<open>if\<close>: the cached payload, or \<open>JNull\<close> when the
  cache is not consulted or gives nothing. \<open>fetch\<close> is the rest: every request that
  reaches \<^verbatim>\<open>urlopen\<close> is appended to \<open>requests_sent\<close>.
\<close>

definition consult_cache :: "pylib \<Rightarrow> world \<Rightarrow> string \<Rightarrow> int \<Rightarrow> bool \<Rightarrow> exn + json" where
  "consult_cache L w url cache_ttl_seconds no_cache =
     (if \<not> no_cache \<and> cache_ttl_seconds > 0 then read_cache L w url cache_ttl_seconds
      else Inr JNull)"

definition fetch :: "pylib \<Rightarrow> world \<Rightarrow> string \<Rightarrow> int \<Rightarrow> bool \<Rightarrow> (exn + json \<times> bool) \<times> world" where
  "fetch L w url cache_ttl_seconds no_cache =
     (case bearer w of
        Inl e \<Rightarrow> (Inl e, w)
      | Inr token \<Rightarrow>
          (let w1 = w\<lparr>requests_sent := requests_sent w @ [url]\<rparr> in
           case urlopen w url of
             HTTPError code reason detail \<Rightarrow>
               (Inl (Exn XRadarError
                  (''X API request failed ('' @ code @ '' '' @ reason @ ''): '' @ detail)), w1)
           | URLError reason \<Rightarrow>
               (Inl (Exn XRadarError (''Network error while calling X API: '' @ reason)), w1)
           | TimeoutError \<Rightarrow> (Inl (Exn XRadarError ''Request to X API timed out''), w1)
           | Raises e \<Rightarrow> (Inl e, w1)
           | Body data \<Rightarrow>
               (case json_loads L data of
                  None \<Rightarrow> (Inl (Exn XRadarError ''X API returned invalid JSON response''), w1)
                | Some obj \<Rightarrow>
                    if \<not> no_cache \<and> cache_ttl_seconds > 0 then
                      (case write_cache L w1 url obj of
                         (Inl e, w2) \<Rightarrow> (Inl e, w2)
                       | (Inr u, w2) \<Rightarrow> (Inr (obj, False), w2))
                    else (Inr (obj, False), w1))))"

definition get :: "pylib \<Rightarrow> world \<Rightarrow> string \<Rightarrow> int \<Rightarrow> bool \<Rightarrow> (exn + json \<times> bool) \<times> world" where
  "get L w url cache_ttl_seconds no_cache =
     (case consult_cache L w url cache_ttl_seconds no_cache of
        Inl e \<Rightarrow> (Inl e, w)
      | Inr cached \<Rightarrow>
          if cached \<noteq> JNull then (Inr (cached, True), w)
          else fetch L w url cache_ttl_seconds no_cache)"

section \<open>Query operations\<close>

text \<open>String helpers: \<^verbatim>\<open>s.strip()\<close> (ASCII white space), \<^verbatim>\<open>s.endswith(t)\<close>,
  \<^verbatim>\<open>t in s\<close> and \<^verbatim>\<open>s.lstrip("@")\<close>.\<close>

definition is_space :: "char \<Rightarrow> bool" where
  "is_space c =
     (c = CHR '' '' \<or> c = CHR 0x09 \<or> c = CHR 0x0A \<or> c = CHR 0x0B \<or> c = CHR 0x0C
      \<or> c = CHR 0x0D \<or> c = CHR 0x1C \<or> c = CHR 0x1D \<or> c = CHR 0x1E \<or> c = CHR 0x1F)"

definition strip :: "string \<Rightarrow> string" where
  "strip s = rev (dropWhile is_space (rev (dropWhile is_space s)))"

fun starts_with :: "string \<Rightarrow> string \<Rightarrow> bool" where
  "starts_with s [] = True"
| "starts_with [] (c # t) = False"
| "starts_with (d # s) (c # t) = (d = c \<and> starts_with s t)"

definition ends_with :: "string \<Rightarrow> string \<Rightarrow> bool" where
  "ends_with s t = starts_with (rev s) (rev t)"

fun contains :: "string \<Rightarrow> string \<Rightarrow> bool" where
  "contains [] t = (t = [])"
| "contains (c # s) t = (starts_with (c # s) t \<or> contains s t)"

definition lstrip_at :: "string \<Rightarrow> string" where
  "lstrip_at s = dropWhile (\<lambda>c. c = CHR ''@'') s"

text \<open>
  \<^verbatim>\<open>
  def _parse_since(value):
      raw = value.strip().lower()
      if raw.endswith("h"):
          return timedelta(hours=float(raw[:-1]))
      if raw.endswith("d"):
          return timedelta(days=float(raw[:-1]))
      raise ValueError("--since must be like 1h, 3h, 12h, 1d, 7d")
  \<close>
\<close>

definition parse_since :: "pylib \<Rightarrow> string \<Rightarrow> exn + int" where
  "parse_since L v =
     (let raw = lower (strip v) in
      if ends_with raw ''h'' then
        (case float_of_str L (butlast raw) of
           Inl m \<Rightarrow> Inl (Exn ValueError m)
         | Inr f \<Rightarrow> timedelta_hours L f)
      else if ends_with raw ''d'' then
        (case float_of_str L (butlast raw) of
           Inl m \<Rightarrow> Inl (Exn ValueError m)
         | Inr f \<Rightarrow> timedelta_days L f)
      else Inl (Exn ValueError ''--since must be like 1h, 3h, 12h, 1d, 7d''))"

text \<open>
  \<^verbatim>\<open>
  @dataclass
  class CostEstimate:
      requests: int
      post_reads: int
      user_lookups: int
      @property
      def usd(self):
          return self.post_reads * COST_POST_READ_USD + self.user_lookups * COST_USER_LOOKUP_USD
  \<close>
  The estimate in dollars is the exact rational the float stands for; it is a multiple of
  0.005, which \<^verbatim>\<open>round(self.usd, 3)\<close> leaves as it is.
\<close>

record CostEstimate =
  requests :: int
  post_reads :: int
  user_lookups :: int

definition usd :: "CostEstimate \<Rightarrow> rat" where
  "usd c = of_int (post_reads c) * COST_POST_READ_USD + of_int (user_lookups c) * COST_USER_LOOKUP_USD"

definition as_dict :: "CostEstimate \<Rightarrow> json" where
  "as_dict c =
     JDict
       [(''requests'', JInt (requests c)),
        (''post_reads'', JInt (post_reads c)),
        (''user_lookups'', JInt (user_lookups c)),
        (''estimated_usd'', JFloat (Finite (usd c))),
        (''assumptions'',
           JDict
             [(''post_read_usd'', JFloat (Finite COST_POST_READ_USD)),
              (''user_lookup_usd'', JFloat (Finite COST_USER_LOOKUP_USD)),
              (''pricing_last_reviewed_utc'', JStr PRICING_LAST_REVIEWED_UTC),
              (''note'', JStr ''Estimate only. Actual X billing may differ by tier/resource.'')])]"

text \<open>
  The quick block of \<^verbatim>\<open>search_recent\<close>:
  \<^verbatim>\<open>
      if quick:
          ql = q.lower()
          if "is:retweet" not in ql and "-is:retweet" not in ql:
              q += " -is:retweet"
          if "is:reply" not in ql and "-is:reply" not in ql:
              q += " -is:reply"
          if not since:
              since = "24h"
  \<close>
  \<open>since\<close> is \<^verbatim>\<open>Optional[str]\<close>; \<^verbatim>\<open>not since\<close> holds for \<^verbatim>\<open>None\<close> and for the empty string.
\<close>

definition quick_query :: "string \<Rightarrow> string" where
  "quick_query q =
     (let ql = lower q;
          q1 = (if \<not> contains ql ''is:retweet'' \<and> \<not> contains ql ''-is:retweet''
                then q @ '' -is:retweet'' else q);
          q2 = (if \<not> contains ql ''is:reply'' \<and> \<not> contains ql ''-is:reply''
                then q1 @ '' -is:reply'' else q1)
      in q2)"

definition since_given :: "string option \<Rightarrow> bool" where
  "since_given since = (case since of None \<Rightarrow> False | Some s \<Rightarrow> s \<noteq> [])"

definition quick_since :: "string option \<Rightarrow> string option" where
  "quick_since since = (if \<not> since_given since then Some ''24h'' else since)"

fun json_of_since :: "string option \<Rightarrow> json" where
  "json_of_since None = JNull"
| "json_of_since (Some s) = JStr s"

text \<open>
  \<^verbatim>\<open>
      if since:
          delta = _parse_since(since)
          start_time = _to_iso_utc(datetime.now(timezone.utc) - delta)
      else:
          start_time = None
  \<close>
\<close>

definition start_time_of :: "pylib \<Rightarrow> world \<Rightarrow> string option \<Rightarrow> exn + string option" where
  "start_time_of L w since =
     (case since of
        None \<Rightarrow> Inr None
      | Some s \<Rightarrow>
          if s = [] then Inr None
          else (case parse_since L s of
                  Inl e \<Rightarrow> Inl e
                | Inr delta \<Rightarrow>
                    (case iso_utc_before_now L (now w) delta of
                       Inl e \<Rightarrow> Inl e
                     | Inr t \<Rightarrow> Inr (Some t))))"

definition search_url :: "pylib \<Rightarrow> string \<Rightarrow> bool \<Rightarrow> string option \<Rightarrow> string" where
  "search_url L q quick start_time =
     API @ ''/tweets/search/recent?'' @
     urlencode L
       ([(''query'', q),
         (''max_results'', if quick then ''10'' else ''100''),
         (''tweet.fields'', ''created_at,public_metrics,author_id,conversation_id''),
         (''expansions'', ''author_id''),
         (''user.fields'', ''username,name,verified'')]
        @ (case start_time of
             None \<Rightarrow> []
           | Some t \<Rightarrow> if t \<noteq> [] then [(''start_time'', t)] else []))"

text \<open>
  The ranking both listings share:
  \<^verbatim>\<open>
      tweets = list(raw.get("data") or [])
      tweets = _filter_tweets(tweets, min_likes=min_likes, min_replies=min_replies, min_retweets=min_retweets)
      tweets.sort(key=lambda t: _sort_key(t, sort), reverse=True)
      tweets = tweets[: max(1, int(limit))]
  \<close>
\<close>

definition rank :: "pylib \<Rightarrow> json \<Rightarrow> int \<Rightarrow> string \<Rightarrow> int \<Rightarrow> int \<Rightarrow> int \<Rightarrow> exn + json list" where
  "rank L raw limit mode min_likes min_replies min_retweets =
     (case py_get raw ''data'' of
        Inl e \<Rightarrow> Inl e
      | Inr d \<Rightarrow>
          (case py_list (py_or d (JList [])) of
             Inl e \<Rightarrow> Inl e
           | Inr tweets \<Rightarrow>
               (case filter_tweets L tweets min_likes min_replies min_retweets of
                  Inl e \<Rightarrow> Inl e
                | Inr kept \<Rightarrow>
                    (case sort_tweets L mode kept of
                       Inl e \<Rightarrow> Inl e
                     | Inr sorted_tweets \<Rightarrow> Inr (take (nat (max 1 limit)) sorted_tweets)))))"

text \<open>\<^verbatim>\<open>0 if cache_hit else len(raw.get("data") or [])\<close>\<close>

definition reads_of :: "json \<Rightarrow> bool \<Rightarrow> exn + int" where
  "reads_of raw cache_hit =
     (if cache_hit then Inr 0
      else (case py_get raw ''data'' of
              Inl e \<Rightarrow> Inl e
            | Inr d \<Rightarrow>
                (case py_len (py_or d (JList [])) of
                   Inl e \<Rightarrow> Inl e
                 | Inr n \<Rightarrow> Inr (int n))))"

definition filters_dict :: "int \<Rightarrow> int \<Rightarrow> int \<Rightarrow> json" where
  "filters_dict min_likes min_replies min_retweets =
     JDict [(''min_likes'', JInt min_likes), (''min_replies'', JInt min_replies),
            (''min_retweets'', JInt min_retweets)]"

definition field :: "json \<Rightarrow> string \<Rightarrow> json" where
  "field raw k = (case py_get raw k of Inl e \<Rightarrow> JNull | Inr v \<Rightarrow> v)"

text \<open>The part of \<^verbatim>\<open>search_recent\<close> after the fetch: ranking, cost and the envelope.\<close>

definition search_envelope ::
  "pylib \<Rightarrow> json \<Rightarrow> bool \<Rightarrow> string \<Rightarrow> string option \<Rightarrow> int \<Rightarrow> string \<Rightarrow> int \<Rightarrow> int \<Rightarrow> int \<Rightarrow> bool
   \<Rightarrow> exn + json" where
  "search_envelope L raw cache_hit q since limit mode min_likes min_replies min_retweets quick =
     (case rank L raw limit mode min_likes min_replies min_retweets of
        Inl e \<Rightarrow> Inl e
      | Inr tweets \<Rightarrow>
          (case reads_of raw cache_hit of
             Inl e \<Rightarrow> Inl e
           | Inr n \<Rightarrow>
               (let cost = \<lparr>requests = (if cache_hit then 0 else 1), post_reads = n,
                            user_lookups = 0\<rparr>
                in Inr (JDict
                     [(''x_radar'',
                         JDict
                           [(''mode'', JStr ''search''),
                            (''query'', JStr q),
                            (''since'', json_of_since since),
                            (''sort'', JStr mode),
                            (''quick'', JBool quick),
                            (''filters'', filters_dict min_likes min_replies min_retweets),
                            (''returned'', JInt (int (length tweets))),
                            (''cost'', as_dict cost)]),
                      (''data'', JList tweets),
                      (''includes'', field raw ''includes''),
                      (''meta'', field raw ''meta'')]))))"

definition search_recent ::
  "pylib \<Rightarrow> world \<Rightarrow> string \<Rightarrow> int \<Rightarrow> string \<Rightarrow> string option \<Rightarrow> int \<Rightarrow> int \<Rightarrow> int \<Rightarrow> bool
   \<Rightarrow> (exn + json) \<times> world" where
  "search_recent L w query limit mode since min_likes min_replies min_retweets quick =
     (let q = (if quick then quick_query query else query);
          since1 = (if quick then quick_since since else since)
      in case start_time_of L w since1 of
           Inl e \<Rightarrow> (Inl e, w)
         | Inr start_time \<Rightarrow>
             (case get L w (search_url L q quick start_time) (if quick then 3600 else 900) False of
                (Inl e, w1) \<Rightarrow> (Inl e, w1)
              | (Inr (raw, cache_hit), w1) \<Rightarrow>
                  (search_envelope L raw cache_hit q since1 limit mode
                     min_likes min_replies min_retweets quick, w1)))"

text \<open>
  \<^verbatim>\<open>
  def user_by_username(username, *, cache_ttl_seconds=900, no_cache=False):
      u = username.lstrip("@")
      url = f"{API}/users/by/username/{urllib.parse.quote(u)}?user.fields=public_metrics,verified,created_at"
      return _get(url, cache_ttl_seconds=cache_ttl_seconds, no_cache=no_cache)
  \<close>
\<close>

definition user_url :: "pylib \<Rightarrow> string \<Rightarrow> string" where
  "user_url L username =
     API @ ''/users/by/username/'' @ quote L (lstrip_at username)
       @ ''?user.fields=public_metrics,verified,created_at''"

definition user_by_username ::
  "pylib \<Rightarrow> world \<Rightarrow> string \<Rightarrow> int \<Rightarrow> bool \<Rightarrow> (exn + json \<times> bool) \<times> world" where
  "user_by_username L w username cache_ttl_seconds no_cache =
     get L w (user_url L username) cache_ttl_seconds no_cache"

text \<open>
  \<^verbatim>\<open>
  def tweet_by_id(tweet_id, *, cache_ttl_seconds=900, no_cache=False):
      tid = urllib.parse.quote(str(tweet_id))
      qp = {"ids": tid, "tweet.fields": ..., "expansions": "author_id", "user.fields": ...}
      url = f"{API}/tweets?{urllib.parse.urlencode(qp)}"
      return _get(url, cache_ttl_seconds=cache_ttl_seconds, no_cache=no_cache)
  \<close>
\<close>

definition tweet_url :: "pylib \<Rightarrow> string \<Rightarrow> string" where
  "tweet_url L tweet_id =
     API @ ''/tweets?'' @
     urlencode L
       [(''ids'', quote L tweet_id),
        (''tweet.fields'', ''created_at,public_metrics,author_id,conversation_id''),
        (''expansions'', ''author_id''),
        (''user.fields'', ''username,name,verified'')]"

definition tweet_by_id ::
  "pylib \<Rightarrow> world \<Rightarrow> string \<Rightarrow> int \<Rightarrow> bool \<Rightarrow> (exn + json \<times> bool) \<times> world" where
  "tweet_by_id L w tweet_id cache_ttl_seconds no_cache =
     get L w (tweet_url L tweet_id) cache_ttl_seconds no_cache"

text \<open>
  \<^verbatim>\<open>
  def user_tweets(username, *, limit=10, sort="recent", min_likes=0, min_replies=0, min_retweets=0):
      user_raw, cache_hit_user = user_by_username(username)
      user_id = user_raw.get("data", {}).get("id")
      if not user_id:
          return {"error": "user not found", "user": user_raw}
      url = (f"{API}/users/{user_id}/tweets?max_results={max_results}"
             f"&tweet.fields=created_at,public_metrics,conversation_id"
             f"&exclude=replies,retweets")
      raw, cache_hit_tweets = _get(url, cache_ttl_seconds=900)
      ...
      requests = (0 if cache_hit_user else 1) + (0 if cache_hit_tweets else 1)
      cost = CostEstimate(
          requests=requests,
          post_reads=0 if cache_hit_tweets else len(raw.get("data") or []),
          user_lookups=0 if cache_hit_user else 1,
      )
  \<close>
\<close>

definition user_id_of :: "json \<Rightarrow> exn + json" where
  "user_id_of user_raw =
     (case py_get_default user_raw ''data'' (JDict []) of
        Inl e \<Rightarrow> Inl e
      | Inr d \<Rightarrow> py_get d ''id'')"

definition not_found :: "json \<Rightarrow> json" where
  "not_found user_raw = JDict [(''error'', JStr ''user not found''), (''user'', user_raw)]"

definition tweets_url :: "pylib \<Rightarrow> json \<Rightarrow> string" where
  "tweets_url L user_id =
     API @ ''/users/'' @ py_str L user_id @ ''/tweets?max_results=100''
       @ ''&tweet.fields=created_at,public_metrics,conversation_id''
       @ ''&exclude=replies,retweets''"

definition user_tweets_cost :: "bool \<Rightarrow> bool \<Rightarrow> int \<Rightarrow> CostEstimate" where
  "user_tweets_cost cache_hit_user cache_hit_tweets n =
     \<lparr>requests = (if cache_hit_user then 0 else 1) + (if cache_hit_tweets then 0 else 1),
      post_reads = n,
      user_lookups = (if cache_hit_user then 0 else 1)\<rparr>"

definition user_tweets_envelope ::
  "pylib \<Rightarrow> json \<Rightarrow> bool \<Rightarrow> json \<Rightarrow> bool \<Rightarrow> string \<Rightarrow> int \<Rightarrow> string \<Rightarrow> int \<Rightarrow> int \<Rightarrow> int
   \<Rightarrow> exn + json" where
  "user_tweets_envelope L user_raw cache_hit_user raw cache_hit_tweets username limit mode
     min_likes min_replies min_retweets =
     (case rank L raw limit mode min_likes min_replies min_retweets of
        Inl e \<Rightarrow> Inl e
      | Inr tweets \<Rightarrow>
          (case reads_of raw cache_hit_tweets of
             Inl e \<Rightarrow> Inl e
           | Inr n \<Rightarrow>
               Inr (JDict
                 [(''x_radar'',
                     JDict
                       [(''mode'', JStr ''user-tweets''),
                        (''username'', JStr username),
                        (''sort'', JStr mode),
                        (''filters'', filters_dict min_likes min_replies min_retweets),
                        (''cache'',
                           JDict [(''user_lookup_hit'', JBool cache_hit_user),
                                  (''tweets_hit'', JBool cache_hit_tweets)]),
                        (''returned'', JInt (int (length tweets))),
                        (''cost'', as_dict (user_tweets_cost cache_hit_user cache_hit_tweets n))]),
                  (''user'', field user_raw ''data''),
                  (''data'', JList tweets),
                  (''meta'', field raw ''meta'')])))"

definition user_tweets ::
  "pylib \<Rightarrow> world \<Rightarrow> string \<Rightarrow> int \<Rightarrow> string \<Rightarrow> int \<Rightarrow> int \<Rightarrow> int \<Rightarrow> (exn + json) \<times> world" where
  "user_tweets L w username limit mode min_likes min_replies min_retweets =
     (case user_by_username L w username 900 False of
        (Inl e, w1) \<Rightarrow> (Inl e, w1)
      | (Inr (user_raw, cache_hit_user), w1) \<Rightarrow>
          (case user_id_of user_raw of
             Inl e \<Rightarrow> (Inl e, w1)
           | Inr user_id \<Rightarrow>
               if \<not> truthy user_id then (Inr (not_found user_raw), w1)
               else (case get L w1 (tweets_url L user_id) 900 False of
                       (Inl e, w2) \<Rightarrow> (Inl e, w2)
                     | (Inr (raw, cache_hit_tweets), w2) \<Rightarrow>
                         (user_tweets_envelope L user_raw cache_hit_user raw cache_hit_tweets
                            username limit mode min_likes min_replies min_retweets, w2))))"

section \<open>The command line\<close>

text \<open>
  The arguments as \<^verbatim>\<open>argparse\<close> returns them: one of the three subcommands with its
  options. \<open>main\<close> returns the exit code and the JSON document written to standard
  output.
\<close>

datatype args =
    Search string int string "string option" int int int bool
  | Tweet string bool
  | UserTweets string int string int int int

definition error_payload :: "string \<Rightarrow> string \<Rightarrow> json" where
  "error_payload code message =
     JDict [(''error'', JDict [(''code'', JStr code), (''message'', JStr message)])]"

definition tweet_envelope :: "string \<Rightarrow> json \<Rightarrow> bool \<Rightarrow> exn + json" where
  "tweet_envelope tweet_id raw cache_hit =
     (case py_get raw ''data'' of
        Inl e \<Rightarrow> Inl e
      | Inr d \<Rightarrow>
          Inr (JDict
            [(''x_radar'',
                JDict
                  [(''mode'', JStr ''tweet''),
                   (''id'', JStr tweet_id),
                   (''cache_hit'', JBool cache_hit),
                   (''cost'',
                      as_dict \<lparr>requests = (if cache_hit then 0 else 1),
                               post_reads = (if cache_hit then 0 else 1),
                               user_lookups = 0\<rparr>)]),
             (''data'', py_or d (JList [])),
             (''includes'', field raw ''includes''),
             (''errors'', field raw ''errors'')]))"

text \<open>The body of the \<^verbatim>\<open>try\<close> in \<^verbatim>\<open>main\<close>.\<close>

fun run :: "pylib \<Rightarrow> world \<Rightarrow> args \<Rightarrow> (exn + json) \<times> world" where
  "run L w (Search query limit mode since min_likes min_replies min_retweets quick) =
     search_recent L w query limit mode since min_likes min_replies min_retweets quick"
| "run L w (Tweet tweet_id no_cache) =
     (case tweet_by_id L w tweet_id 900 no_cache of
        (Inl e, w1) \<Rightarrow> (Inl e, w1)
      | (Inr (raw, cache_hit), w1) \<Rightarrow> (tweet_envelope tweet_id raw cache_hit, w1))"
| "run L w (UserTweets username limit mode min_likes min_replies min_retweets) =
     user_tweets L w username limit mode min_likes min_replies min_retweets"

text \<open>
  \<^verbatim>\<open>
      except ValueError as exc:
          _write_json(_error_payload("invalid_arguments", str(exc)))
          return 2
      except XRadarError as exc:
          _write_json(_error_payload("runtime_error", str(exc)))
          return 1
      except Exception as exc:
          _write_json(_error_payload("internal_error", f"{type(exc).__name__}: {exc}"))
          return 1
      _write_json(out)
      return 0
  \<close>
\<close>

definition main :: "pylib \<Rightarrow> world \<Rightarrow> args \<Rightarrow> (int \<times> json) \<times> world" where
  "main L w a =
     (case run L w a of
        (Inl e, w1) \<Rightarrow>
          if is_ValueError e then ((2, error_payload ''invalid_arguments'' (exn_message e)), w1)
          else if is_XRadarError e then ((1, error_payload ''runtime_error'' (exn_message e)), w1)
          else ((1, error_payload ''internal_error''
                      (exn_type_name e @ '': '' @ exn_message e)), w1)
      | (Inr out, w1) \<Rightarrow> ((0, out), w1))"

section \<open>Example data\<close>

text \<open>The item of the ranking example: its likes and its creation time.\<close>

definition item :: "int \<Rightarrow> string \<Rightarrow> json" where
  "item likes created =
     JDict [(''created_at'', JStr created),
            (''public_metrics'', JDict [(''like_count'', JInt likes)])]"

text \<open>
  A stand-in for the library, for running the program on concrete inputs: the digest is
  the text itself, the JSON codec knows three documents and \<^verbatim>\<open>null\<close> by name, \<^verbatim>\<open>float\<close> reads the
  numerals \<^verbatim>\<open>24\<close> and \<^verbatim>\<open>1\<close>, and nothing is quoted.
\<close>

definition stub_user :: json where
  "stub_user = JDict [(''data'', JDict [(''id'', JStr ''42''), (''username'', JStr ''alice'')])]"

definition stub_nobody :: json where
  "stub_nobody = JDict [(''errors'', JList [JDict [(''title'', JStr ''Not Found Error'')]])]"

definition stub_tweets :: json where
  "stub_tweets = JDict [(''data'', JList [item 1 ''2026-01-01'', item 5 ''2026-01-02''])]"

definition stub_loads :: "string \<Rightarrow> json option" where
  "stub_loads s =
     (if s = ''user'' then Some stub_user
      else if s = ''nobody'' then Some stub_nobody
      else if s = ''tweets'' then Some stub_tweets
      else if s = ''null'' then Some JNull
      else None)"

definition stub_dumps :: "json \<Rightarrow> string" where
  "stub_dumps v =
     (if v = stub_user then ''user''
      else if v = stub_nobody then ''nobody''
      else if v = stub_tweets then ''tweets''
      else if v = JNull then ''null''
      else ''other'')"

definition stub_float :: "string \<Rightarrow> string + pyfloat" where
  "stub_float s =
     (if s = ''24'' then Inr (Finite 24)
      else if s = ''1'' then Inr (Finite 1)
      else Inl (''could not convert string to float: '' @ quoted s))"

fun stub_timedelta :: "int \<Rightarrow> pyfloat \<Rightarrow> exn + int" where
  "stub_timedelta unit (Finite r) = Inr (unit * toward_zero r)"
| "stub_timedelta unit NaN = Inl (Exn ValueError ''cannot convert float NaN to integer'')"
| "stub_timedelta unit f = Inl (Exn OverflowError ''cannot convert float infinity to integer'')"

fun stub_urlencode :: "(string \<times> string) list \<Rightarrow> string" where
  "stub_urlencode [] = []"
| "stub_urlencode [(k, v)] = k @ ''='' @ v"
| "stub_urlencode ((k, v) # kvs) = k @ ''='' @ v @ ''&'' @ stub_urlencode kvs"

definition stub_lib :: pylib where
  "stub_lib =
     \<lparr>sha256_hexdigest = (\<lambda>s. s),
      json_loads = stub_loads,
      json_dumps = stub_dumps,
      int_of_str = (\<lambda>s. None),
      float_of_str = stub_float,
      repr = (\<lambda>v. ''?''),
      quote = (\<lambda>s. s),
      urlencode = stub_urlencode,
      timedelta_hours = stub_timedelta 3600000000,
      timedelta_days = stub_timedelta 86400000000,
      iso_utc_before_now = (\<lambda>t d. Inr ''2026-01-01T00:00:00Z'')\<rparr>"

text \<open>A world with a credential, an empty cache that can be written, and a network
  that answers with the body \<open>answer\<close> to every request.\<close>

definition stub_world :: "string \<Rightarrow> world" where
  "stub_world answer =
     \<lparr>env_X_BEARER_TOKEN = Some ''token'',
      env_TWITTER_BEARER_TOKEN = None,
      now = 1000000000,
      cache_dir = ''cache'',
      files = (\<lambda>p. NoFile),
      failing_write = (\<lambda>p t. None),
      urlopen = (\<lambda>u. Body answer),
      requests_sent = []\<rparr>"



text \<open>A world whose cache directory cannot be written.\<close>

definition read_only_world :: "string \<Rightarrow> world" where
  "read_only_world answer =
     (stub_world answer)
       \<lparr>failing_write := (\<lambda>p t. Some (Exn OSError ''Permission denied'', NoFile))\<rparr>"





text \<open>An item whose like count is the float infinity, as \<^verbatim>\<open>json.loads\<close> reads
  \<^verbatim>\<open>{"public_metrics": {"like_count": 1e999}}\<close>.\<close>

definition infinite_likes :: json where
  "infinite_likes = JDict [(''public_metrics'', JDict [(''like_count'', JFloat PosInf)])]"

section \<open>SHA-256\<close>

text \<open>
  The digest \<^verbatim>\<open>hashlib.sha256(...).hexdigest()\<close> computes (FIPS 180-4), on bytes and 32-bit
  words written as integers; the round constants and the initial hash value are written
  in decimal. \<open>with_sha256\<close> is a library with that digest.
\<close>

unbundle bit_operations_syntax

definition K256 :: "int list" where
  "K256 =
     [1116352408, 1899447441, 3049323471, 3921009573,
      961987163, 1508970993, 2453635748, 2870763221,
      3624381080, 310598401, 607225278, 1426881987,
      1925078388, 2162078206, 2614888103, 3248222580,
      3835390401, 4022224774, 264347078, 604807628,
      770255983, 1249150122, 1555081692, 1996064986,
      2554220882, 2821834349, 2952996808, 3210313671,
      3336571891, 3584528711, 113926993, 338241895,
      666307205, 773529912, 1294757372, 1396182291,
      1695183700, 1986661051, 2177026350, 2456956037,
      2730485921, 2820302411, 3259730800, 3345764771,
      3516065817, 3600352804, 4094571909, 275423344,
      430227734, 506948616, 659060556, 883997877,
      958139571, 1322822218, 1537002063, 1747873779,
      1955562222, 2024104815, 2227730452, 2361852424,
      2428436474, 2756734187, 3204031479, 3329325298]"

definition H256 :: "int list" where
  "H256 = [1779033703, 3144134277, 1013904242, 2773480762,
           1359893119, 2600822924, 528734635, 1541459225]"

definition add32 :: "int \<Rightarrow> int \<Rightarrow> int" where
  "add32 x y = (x + y) mod 4294967296"

definition rotr :: "nat \<Rightarrow> int \<Rightarrow> int" where
  "rotr n x = x div 2 ^ n + (x mod 2 ^ n) * 2 ^ (32 - n)"

definition ssig0 :: "int \<Rightarrow> int" where
  "ssig0 x = rotr 7 x XOR rotr 18 x XOR x div 2 ^ 3"

definition ssig1 :: "int \<Rightarrow> int" where
  "ssig1 x = rotr 17 x XOR rotr 19 x XOR x div 2 ^ 10"

definition bsig0 :: "int \<Rightarrow> int" where
  "bsig0 x = rotr 2 x XOR rotr 13 x XOR rotr 22 x"

definition bsig1 :: "int \<Rightarrow> int" where
  "bsig1 x = rotr 6 x XOR rotr 11 x XOR rotr 25 x"

definition ch :: "int \<Rightarrow> int \<Rightarrow> int \<Rightarrow> int" where
  "ch x y z = (x AND y) XOR ((4294967295 - x) AND z)"

definition maj :: "int \<Rightarrow> int \<Rightarrow> int \<Rightarrow> int" where
  "maj x y z = (x AND y) XOR (x AND z) XOR (y AND z)"

definition next_word :: "int list \<Rightarrow> int" where
  "next_word rws =
     add32 (add32 (ssig1 (rws ! 1)) (rws ! 6)) (add32 (ssig0 (rws ! 14)) (rws ! 15))"

definition schedule :: "int list \<Rightarrow> int list" where
  "schedule block = rev (foldl (\<lambda>rws k. next_word rws # rws) (rev block) (drop 16 K256))"

fun round256 :: "int list \<Rightarrow> int \<times> int \<Rightarrow> int list" where
  "round256 [a, b, c, d, e, f, g, h] (k, w) =
     (let t1 = add32 (add32 (add32 h (bsig1 e)) (add32 (ch e f g) k)) w;
          t2 = add32 (bsig0 a) (maj a b c)
      in [add32 t1 t2, a, b, c, add32 d t1, e, f, g])"
| "round256 s kw = s"

definition compress :: "int list \<Rightarrow> int list \<Rightarrow> int list" where
  "compress H block = map2 add32 H (foldl round256 H (zip K256 (schedule block)))"

definition be64 :: "int \<Rightarrow> int list" where
  "be64 n = map (\<lambda>i. n div 256 ^ i mod 256) [7, 6, 5, 4, 3, 2, 1, 0]"

definition pad :: "int list \<Rightarrow> int list" where
  "pad bs =
     bs @ [128] @ replicate ((119 - length bs mod 64) mod 64) 0 @ be64 (8 * int (length bs))"

fun words32 :: "int list \<Rightarrow> int list" where
  "words32 (a # b # c # d # r) = (((a * 256 + b) * 256 + c) * 256 + d) # words32 r"
| "words32 r = []"

primrec blocks_upto :: "nat \<Rightarrow> int list \<Rightarrow> int list list" where
  "blocks_upto 0 ws = []"
| "blocks_upto (Suc n) ws = (if ws = [] then [] else take 16 ws # blocks_upto n (drop 16 ws))"

definition sha256 :: "int list \<Rightarrow> int list" where
  "sha256 bs = (let ws = words32 (pad bs) in foldl compress H256 (blocks_upto (length ws) ws))"

definition hex8 :: "int \<Rightarrow> string" where
  "hex8 w = map (\<lambda>i. ''0123456789abcdef'' ! nat (w div 16 ^ i mod 16)) [7, 6, 5, 4, 3, 2, 1, 0]"

definition sha256_hex :: "string \<Rightarrow> string" where
  "sha256_hex s = concat (map hex8 (sha256 (map of_char s)))"








section \<open>Properties of the string helpers\<close>

lemma starts_with_append: "starts_with s t \<longleftrightarrow> (\<exists>r. s = t @ r)"
  by (induction s t rule: starts_with.induct) auto

lemma contains_iff: "contains s t \<longleftrightarrow> (\<exists>p r. s = p @ t @ r)"
proof (induction s)
  case Nil
  then show ?case by auto
next
  case (Cons c s)
  show ?case
  proof
    assume "contains (c # s) t"
    then consider "starts_with (c # s) t" | "contains s t" by auto
    then show "\<exists>p r. c # s = p @ t @ r"
    proof cases
      case 1
      then obtain r where "c # s = t @ r" by (auto simp: starts_with_append)
      then have "c # s = [] @ t @ r" by simp
      then show ?thesis by blast
    next
      case 2
      then obtain p r where "s = p @ t @ r" using Cons.IH by auto
      then have "c # s = (c # p) @ t @ r" by simp
      then show ?thesis by blast
    qed
  next
    assume "\<exists>p r. c # s = p @ t @ r"
    then obtain p r where pr: "c # s = p @ t @ r" by auto
    show "contains (c # s) t"
    proof (cases p)
      case Nil
      then have "c # s = t @ r" using pr by simp
      then have "starts_with (c # s) t" unfolding starts_with_append by blast
      then show ?thesis by simp
    next
      case (Cons d p')
      then have "s = p' @ t @ r" using pr by simp
      then have "contains s t" using Cons.IH by blast
      then show ?thesis by simp
    qed
  qed
qed

lemma contains_tail_of_needle: "contains s (a @ t) \<Longrightarrow> contains s t"
  unfolding contains_iff by (metis append.assoc)

lemma contains_dash: "contains s (CHR ''-'' # t) \<Longrightarrow> contains s t"
  using contains_tail_of_needle [of s "[CHR ''-'']" t] by simp

section \<open>Quick mode\<close>

lemma quick_query_eq:
  "quick_query q =
     q @ (if contains (lower q) ''is:retweet'' then [] else '' -is:retweet'')
       @ (if contains (lower q) ''is:reply'' then [] else '' -is:reply'')"
proof -
  have a: "contains (lower q) ''-is:retweet'' \<Longrightarrow> contains (lower q) ''is:retweet''"
    by (rule contains_dash)
  have b: "contains (lower q) ''-is:reply'' \<Longrightarrow> contains (lower q) ''is:reply''"
    by (rule contains_dash)
  show ?thesis
    using a b by (auto simp: quick_query_def Let_def)
qed

lemma quick_since_eq:
  "quick_since since =
     (case since of None \<Rightarrow> Some ''24h'' | Some s \<Rightarrow> if s = [] then Some ''24h'' else Some s)"
  by (simp add: quick_since_def since_given_def split: option.splits)

lemma quick_query_plain: "quick_query ''civic tech'' = ''civic tech -is:retweet -is:reply''"
  by (simp add: quick_query_def lower_def lower_char_def Let_def)

lemma quick_query_reply: "quick_query ''news is:reply'' = ''news is:reply -is:retweet''"
  by (simp add: quick_query_def lower_def lower_char_def Let_def)

lemma quick_query_capitals: "quick_query ''news -IS:Reply'' = ''news -IS:Reply -is:retweet''"
  by (simp add: quick_query_def lower_def lower_char_def Let_def)

text \<open>
  C10. In quick mode \<^verbatim>\<open>search_recent\<close> appends \<^verbatim>\<open>-is:retweet\<close> exactly when the query,
  in lower case, does not contain \<^verbatim>\<open>is:retweet\<close>, and \<^verbatim>\<open>-is:reply\<close> exactly when it does
  not contain \<^verbatim>\<open>is:reply\<close>; it sets \<^verbatim>\<open>since\<close> to \<^verbatim>\<open>24h\<close> exactly when \<^verbatim>\<open>since\<close> is
  \<^verbatim>\<open>None\<close> or empty. The query and the window so adjusted are the ones the request and
  the envelope are built from; without quick mode both are the caller's. A query with no
  qualifier gets both exclusions; a query with \<^verbatim>\<open>is:reply\<close>, in any case of letters, gets
  no reply exclusion.
\<close>

theorem quick_mode_exclusions_and_window:
  "quick_query q =
     q @ (if contains (lower q) ''is:retweet'' then [] else '' -is:retweet'')
       @ (if contains (lower q) ''is:reply'' then [] else '' -is:reply'')
   \<and> quick_since since =
       (case since of None \<Rightarrow> Some ''24h'' | Some s \<Rightarrow> if s = [] then Some ''24h'' else Some s)
   \<and> search_recent L w query limit mode since min_likes min_replies min_retweets True =
       (case start_time_of L w (quick_since since) of
          Inl e \<Rightarrow> (Inl e, w)
        | Inr start_time \<Rightarrow>
            (case get L w (search_url L (quick_query query) True start_time) 3600 False of
               (Inl e, w1) \<Rightarrow> (Inl e, w1)
             | (Inr (raw, cache_hit), w1) \<Rightarrow>
                 (search_envelope L raw cache_hit (quick_query query) (quick_since since)
                    limit mode min_likes min_replies min_retweets True, w1)))
   \<and> search_recent L w query limit mode since min_likes min_replies min_retweets False =
       (case start_time_of L w since of
          Inl e \<Rightarrow> (Inl e, w)
        | Inr start_time \<Rightarrow>
            (case get L w (search_url L query False start_time) 900 False of
               (Inl e, w1) \<Rightarrow> (Inl e, w1)
             | (Inr (raw, cache_hit), w1) \<Rightarrow>
                 (search_envelope L raw cache_hit query since
                    limit mode min_likes min_replies min_retweets False, w1)))
   \<and> quick_query ''civic tech'' = ''civic tech -is:retweet -is:reply''
   \<and> quick_query ''news is:reply'' = ''news is:reply -is:retweet''
   \<and> quick_query ''news -IS:Reply'' = ''news -IS:Reply -is:retweet''"
proof -
  have quick: "search_recent L w query limit mode since min_likes min_replies min_retweets True =
       (case start_time_of L w (quick_since since) of
          Inl e \<Rightarrow> (Inl e, w)
        | Inr start_time \<Rightarrow>
            (case get L w (search_url L (quick_query query) True start_time) 3600 False of
               (Inl e, w1) \<Rightarrow> (Inl e, w1)
             | (Inr (raw, cache_hit), w1) \<Rightarrow>
                 (search_envelope L raw cache_hit (quick_query query) (quick_since since)
                    limit mode min_likes min_replies min_retweets True, w1)))"
    by (simp add: search_recent_def Let_def)
  have full: "search_recent L w query limit mode since min_likes min_replies min_retweets False =
       (case start_time_of L w since of
          Inl e \<Rightarrow> (Inl e, w)
        | Inr start_time \<Rightarrow>
            (case get L w (search_url L query False start_time) 900 False of
               (Inl e, w1) \<Rightarrow> (Inl e, w1)
             | (Inr (raw, cache_hit), w1) \<Rightarrow>
                 (search_envelope L raw cache_hit query since
                    limit mode min_likes min_replies min_retweets False, w1)))"
    by (simp add: search_recent_def Let_def)
  show ?thesis
    using quick full quick_query_eq [of q] quick_since_eq [of since]
      quick_query_plain quick_query_reply quick_query_capitals
    by (intro conjI) assumption+
qed

section \<open>Ranking\<close>

lemma map_exn_total: "(\<forall>t\<in>set ts. f t = Inr (g t)) \<Longrightarrow> map_exn f ts = Inr (map g ts)"
  by (induction ts) auto




lemma sort_tweets_total:
  assumes "\<forall>t\<in>set ts. sort_key_of L t mode = Inr (key t)"
  shows "sort_tweets L mode ts = Inr (map snd (sort_reverse (map (\<lambda>t. (key t, t)) ts)))"
proof -
  have "map_exn (\<lambda>t. sort_key_of L t mode) ts = Inr (map key ts)"
    using assms by (rule map_exn_total)
  moreover have "zip (map key ts) ts = map (\<lambda>t. (key t, t)) ts"
    by (induction ts) auto
  ultimately show ?thesis by (simp add: sort_tweets_def)
qed













section \<open>The cache store and the fetcher\<close>

lemma cache_path_files [simp]: "cache_path L (w\<lparr>files := f\<rparr>) url = cache_path L w url"
  by (simp add: cache_path_def)

lemma cache_path_requests [simp]:
  "cache_path L (w\<lparr>requests_sent := r\<rparr>) url = cache_path L w url"
  by (simp add: cache_path_def)

lemma bearer_files [simp]: "bearer (w\<lparr>files := f\<rparr>) = bearer w"
  by (simp add: bearer_def split: option.splits)

lemma read_cache_returns: "\<exists>v. read_cache L w url ttl = Inr v"
  by (simp add: read_cache_def split: sum.splits)

lemma write_cache_returns: "\<exists>w'. write_cache L w url obj = (Inr (), w')"
  by (simp add: write_cache_def split: prod.splits sum.splits)

lemma write_cache_world:
  "snd (write_cache L w url obj) =
     w\<lparr>files := (files w)(cache_path L w url :=
          (case failing_write w (cache_path L w url) (json_dumps L obj) of
             None \<Rightarrow> File (now w) (Inr (json_dumps L obj))
           | Some (e, left) \<Rightarrow> left))\<rparr>"
  by (simp add: write_cache_def write_cache_try_def Let_def
      split: option.splits prod.splits sum.splits)

lemma write_cache_fst: "fst (write_cache L w url obj) = Inr ()"
  by (simp add: write_cache_def split: prod.splits sum.splits)

lemma write_cache_eq:
  "write_cache L w url obj =
     (Inr (), w\<lparr>files := (files w)(cache_path L w url :=
          (case failing_write w (cache_path L w url) (json_dumps L obj) of
             None \<Rightarrow> File (now w) (Inr (json_dumps L obj))
           | Some (e, left) \<Rightarrow> left))\<rparr>)"
  using write_cache_world [of L w url obj] write_cache_fst [of L w url obj]
  by (metis prod.collapse)

lemma fetch_requests:
  "fetch L w url ttl nc = (r, w') \<Longrightarrow>
     requests_sent w' =
       (case bearer w of Inl e \<Rightarrow> requests_sent w | Inr t \<Rightarrow> requests_sent w @ [url])"
  by (auto simp: fetch_def write_cache_eq Let_def
      split: sum.splits net_outcome.splits option.splits if_splits)

lemma fetch_miss:
  "fetch L w url ttl nc = (Inr (obj, hit), w') \<Longrightarrow>
     \<not> hit \<and> requests_sent w' = requests_sent w @ [url]"
  by (auto simp: fetch_def write_cache_eq Let_def
      split: sum.splits net_outcome.splits option.splits if_splits)


lemma get_hit_world: "get L w url ttl nc = (Inr (obj, True), w') \<Longrightarrow> w' = w"
  by (auto simp: get_def dest: fetch_miss split: sum.splits if_splits)

lemma cache_path_lib [simp]:
  "cache_path (L\<lparr>json_loads := f\<rparr>) w url = cache_path L w url"
  by (simp add: cache_path_def cache_key_def)

lemma cache_path_failing [simp]:
  "cache_path L (w\<lparr>failing_write := fw\<rparr>) url = cache_path L w url"
  by (simp add: cache_path_def)

lemma bearer_failing [simp]: "bearer (w\<lparr>failing_write := fw\<rparr>) = bearer w"
  by (simp add: bearer_def split: option.splits)

lemma fetch_fst:
  "fst (fetch L w url ttl nc) =
     (case bearer w of
        Inl e \<Rightarrow> Inl e
      | Inr token \<Rightarrow>
          (case urlopen w url of
             HTTPError code reason detail \<Rightarrow>
               Inl (Exn XRadarError
                  (''X API request failed ('' @ code @ '' '' @ reason @ ''): '' @ detail))
           | URLError reason \<Rightarrow>
               Inl (Exn XRadarError (''Network error while calling X API: '' @ reason))
           | TimeoutError \<Rightarrow> Inl (Exn XRadarError ''Request to X API timed out'')
           | Raises e \<Rightarrow> Inl e
           | Body data \<Rightarrow>
               (case json_loads L data of
                  None \<Rightarrow> Inl (Exn XRadarError ''X API returned invalid JSON response'')
                | Some obj \<Rightarrow> Inr (obj, False))))"
  by (simp add: fetch_def write_cache_eq Let_def
      split: sum.splits net_outcome.splits option.splits)

lemma fetch_fst_files: "fst (fetch L (w\<lparr>files := f\<rparr>) url ttl nc) = fst (fetch L w url ttl nc)"
  by (simp add: fetch_fst split: sum.splits)

lemma fetch_fst_failing:
  "fst (fetch L (w\<lparr>failing_write := fw\<rparr>) url ttl nc) = fst (fetch L w url ttl nc)"
  by (simp add: fetch_fst split: sum.splits)

lemma consult_cache_failing [simp]:
  "consult_cache L (w\<lparr>failing_write := fw\<rparr>) url ttl nc = consult_cache L w url ttl nc"
  by (simp add: consult_cache_def read_cache_def read_cache_try_def
      cong: sum.case_cong fnode.case_cong)

lemma get_fst:
  "fst (get L w url ttl nc) =
     (case consult_cache L w url ttl nc of
        Inl e \<Rightarrow> Inl e
      | Inr cached \<Rightarrow> if cached \<noteq> JNull then Inr (cached, True) else fst (fetch L w url ttl nc))"
  by (simp add: get_def split: sum.splits)

lemma get_fst_failing:
  "fst (get L (w\<lparr>failing_write := fw\<rparr>) url ttl nc) = fst (get L w url ttl nc)"
  by (simp add: get_fst fetch_fst_failing split: sum.splits)

lemma consult_no_file:
  "consult_cache L (w\<lparr>files := (files w)(cache_path L w url := NoFile)\<rparr>) url ttl nc = Inr JNull"
  by (simp add: consult_cache_def read_cache_def read_cache_try_def)

lemma consult_inaccessible:
  "consult_cache L (w\<lparr>files := (files w)(cache_path L w url := Inaccessible e)\<rparr>) url ttl nc = Inr JNull"
  by (simp add: consult_cache_def read_cache_def read_cache_try_def)

lemma consult_unreadable:
  "consult_cache L (w\<lparr>files := (files w)(cache_path L w url := File mtime (Inl e))\<rparr>) url ttl nc = Inr JNull"
  by (simp add: consult_cache_def read_cache_def read_cache_try_def)

lemma consult_corrupt:
  "consult_cache (L\<lparr>json_loads := (json_loads L)(text := None)\<rparr>)
     (w\<lparr>files := (files w)(cache_path L w url := File mtime (Inr text))\<rparr>) url ttl nc = Inr JNull"
  by (simp add: consult_cache_def read_cache_def read_cache_try_def)

lemma read_no_file:
  "read_cache L (w\<lparr>files := (files w)(cache_path L w url := NoFile)\<rparr>) url ttl = Inr JNull"
  by (simp add: read_cache_def read_cache_try_def)

lemma read_inaccessible:
  "read_cache L (w\<lparr>files := (files w)(cache_path L w url := Inaccessible e)\<rparr>) url ttl = Inr JNull"
  by (simp add: read_cache_def read_cache_try_def)

lemma read_unreadable:
  "read_cache L (w\<lparr>files := (files w)(cache_path L w url := File mtime (Inl e))\<rparr>) url ttl = Inr JNull"
  by (simp add: read_cache_def read_cache_try_def)

lemma read_corrupt:
  "read_cache (L\<lparr>json_loads := (json_loads L)(text := None)\<rparr>)
     (w\<lparr>files := (files w)(cache_path L w url := File mtime (Inr text))\<rparr>) url ttl = Inr JNull"
  by (simp add: read_cache_def read_cache_try_def)

lemma get_like_no_file:
  assumes "consult_cache L (w\<lparr>files := f\<rparr>) url ttl nc = Inr JNull"
  shows "fst (get L (w\<lparr>files := f\<rparr>) url ttl nc)
         = fst (get L (w\<lparr>files := (files w)(cache_path L w url := NoFile)\<rparr>) url ttl nc)"
  using assms by (simp add: get_fst consult_no_file fetch_fst_files)

text \<open>
  C6. For every library, world, URL and TTL, \<^verbatim>\<open>_read_cache\<close> returns a value (a payload, or
  \<^verbatim>\<open>None\<close>) and \<^verbatim>\<open>_write_cache\<close> returns: neither raises. A missing file, a file that
  cannot be examined, a file that cannot be read and a file whose text is no JSON all
  read as \<^verbatim>\<open>None\<close>, and \<^verbatim>\<open>_get\<close> then gives its caller what it gives with no file at
  all. Whether and how a cache write fails changes nothing in what \<^verbatim>\<open>_get\<close> gives its
  caller.
\<close>

theorem cache_failures_never_surface:
  "(\<exists>v. read_cache L w url ttl = Inr v)
   \<and> (\<exists>w'. write_cache L w url obj = (Inr (), w'))
   \<and> read_cache L (w\<lparr>files := (files w)(cache_path L w url := NoFile)\<rparr>) url ttl = Inr JNull
   \<and> read_cache L (w\<lparr>files := (files w)(cache_path L w url := Inaccessible e)\<rparr>) url ttl
       = Inr JNull
   \<and> read_cache L (w\<lparr>files := (files w)(cache_path L w url := File mtime (Inl e))\<rparr>) url ttl
       = Inr JNull
   \<and> read_cache (L\<lparr>json_loads := (json_loads L)(text := None)\<rparr>)
        (w\<lparr>files := (files w)(cache_path L w url := File mtime (Inr text))\<rparr>) url ttl
       = Inr JNull
   \<and> fst (get L (w\<lparr>files := (files w)(cache_path L w url := Inaccessible e)\<rparr>) url ttl nc)
       = fst (get L (w\<lparr>files := (files w)(cache_path L w url := NoFile)\<rparr>) url ttl nc)
   \<and> fst (get L (w\<lparr>files := (files w)(cache_path L w url := File mtime (Inl e))\<rparr>) url ttl nc)
       = fst (get L (w\<lparr>files := (files w)(cache_path L w url := NoFile)\<rparr>) url ttl nc)
   \<and> fst (get (L\<lparr>json_loads := (json_loads L)(text := None)\<rparr>)
             (w\<lparr>files := (files w)(cache_path L w url := File mtime (Inr text))\<rparr>) url ttl nc)
       = fst (get (L\<lparr>json_loads := (json_loads L)(text := None)\<rparr>)
             (w\<lparr>files := (files w)(cache_path L w url := NoFile)\<rparr>) url ttl nc)
   \<and> fst (get L (w\<lparr>failing_write := fw\<rparr>) url ttl nc) = fst (get L w url ttl nc)"
proof -
  have corrupt:
    "fst (get (L\<lparr>json_loads := (json_loads L)(text := None)\<rparr>)
             (w\<lparr>files := (files w)(cache_path L w url := File mtime (Inr text))\<rparr>) url ttl nc)
       = fst (get (L\<lparr>json_loads := (json_loads L)(text := None)\<rparr>)
             (w\<lparr>files := (files w)(cache_path L w url := NoFile)\<rparr>) url ttl nc)"
    using get_like_no_file [OF consult_corrupt, of L "text" w url mtime ttl nc] by simp
  show ?thesis
    by (intro conjI)
      (rule read_cache_returns write_cache_returns read_no_file read_inaccessible
        read_unreadable read_corrupt get_like_no_file [OF consult_inaccessible]
        get_like_no_file [OF consult_unreadable] corrupt get_fst_failing)+
qed

section \<open>The credential\<close>


lemma consult_fresh:
  assumes "\<not> nc" "0 < ttl" "files w (cache_path L w url) = File mtime (Inr content)"
    "now w - mtime \<le> ttl * 1000000" "json_loads L content = Some P"
  shows "consult_cache L w url ttl nc = Inr P"
  using assms by (simp add: consult_cache_def read_cache_def read_cache_try_def)



lemma get_hit:
  "consult_cache L w url ttl nc = Inr P \<Longrightarrow> P \<noteq> JNull \<Longrightarrow> get L w url ttl nc = (Inr (P, True), w)"
  by (simp add: get_def)





section \<open>The cache round trip\<close>

lemma consult_after_write:
  assumes ok: "failing_write w (cache_path L w u) (json_dumps L P) = None"
    and codec: "json_loads L (json_dumps L P) = Some P"
    and ttl: "0 < ttl"
    and same: "files w2 = files (snd (write_cache L w u P))" "cache_dir w2 = cache_dir w"
    and age: "now w2 - now w \<le> ttl * 1000000"
  shows "consult_cache L w2 u ttl False = Inr P"
proof -
  have path: "cache_path L w2 u = cache_path L w u"
    using same(2) by (simp add: cache_path_def)
  have "files w2 (cache_path L w2 u) = File (now w) (Inr (json_dumps L P))"
    using ok same(1) by (simp add: path write_cache_world)
  then show ?thesis
    using codec ttl age by (simp add: consult_fresh)
qed

lemma get_ttl_zero: "get L w u 0 nc = fetch L w u 0 nc"
  by (simp add: get_def consult_cache_def)

lemma fetch_ttl_zero_files: "files (snd (fetch L w u 0 nc)) = files w"
  by (simp add: fetch_def Let_def split: sum.splits net_outcome.splits option.splits)

lemma get_ttl_zero_ignores_cache:
  "fst (get L (w\<lparr>files := f\<rparr>) u 0 nc) = fst (get L w u 0 nc)"
  by (simp add: get_ttl_zero fetch_fst_files)

lemma get_ttl_zero_miss: "get L w u 0 nc = (Inr (obj, hit), w') \<Longrightarrow> \<not> hit"
  by (auto simp: get_ttl_zero dest: fetch_miss)

text \<open>
  C2, as amended. Let \<^verbatim>\<open>_write_cache(u, P)\<close> run in a world where that write does not
  fail, for a payload \<open>P\<close> other than \<^verbatim>\<open>null\<close> that the JSON codec gives back as it was
  written. In every later world with the same cache files, as long as the age of the entry
  does not exceed a positive TTL, \<^verbatim>\<open>_get(u)\<close> with caching on returns exactly \<open>P\<close> as a hit
  and leaves the world as it is: nothing is fetched. With a TTL of zero \<^verbatim>\<open>_get\<close> is the
  fetch alone: what it gives its caller does not depend on the cache files, it writes no
  cache file, and whatever it returns it returns as a miss.
\<close>

theorem cache_round_trip:
  assumes "failing_write w (cache_path L w u) (json_dumps L P) = None"
    and "json_loads L (json_dumps L P) = Some P"
    and "P \<noteq> JNull"
    and "0 < ttl"
    and "files w2 = files (snd (write_cache L w u P))" "cache_dir w2 = cache_dir w"
    and "now w2 - now w \<le> ttl * 1000000"
  shows "get L w2 u ttl False = (Inr (P, True), w2)
     \<and> get L w3 u 0 nc = fetch L w3 u 0 nc
     \<and> fst (get L (w3\<lparr>files := f\<rparr>) u 0 nc) = fst (get L w3 u 0 nc)
     \<and> files (snd (get L w3 u 0 nc)) = files w3
     \<and> (\<forall>obj hit w'. get L w3 u 0 nc = (Inr (obj, hit), w') \<longrightarrow> \<not> hit)"
proof -
  have "consult_cache L w2 u ttl False = Inr P"
    using assms(1,2,4,5,6,7) by (rule consult_after_write)
  then have hit: "get L w2 u ttl False = (Inr (P, True), w2)"
    using assms(3) by (rule get_hit)
  have miss: "\<forall>obj hit w'. get L w3 u 0 nc = (Inr (obj, hit), w') \<longrightarrow> \<not> hit"
    using get_ttl_zero_miss by blast
  have nowrite: "files (snd (get L w3 u 0 nc)) = files w3"
    by (simp add: get_ttl_zero fetch_ttl_zero_files)
  show ?thesis
    by (intro conjI) (rule hit get_ttl_zero get_ttl_zero_ignores_cache nowrite miss)+
qed

theorem cache_round_trip_witness:
  "get stub_lib (snd (write_cache stub_lib (stub_world ''nobody'') ''u'' stub_tweets)) ''u'' 900 False
     = (Inr (stub_tweets, True), snd (write_cache stub_lib (stub_world ''nobody'') ''u'' stub_tweets))"
proof -
  have a: "failing_write (stub_world ''nobody'') (cache_path stub_lib (stub_world ''nobody'') ''u'')
             (json_dumps stub_lib stub_tweets) = None"
    by (simp add: stub_world_def)
  have b: "json_loads stub_lib (json_dumps stub_lib stub_tweets) = Some stub_tweets"
    by (simp add: stub_lib_def stub_loads_def stub_dumps_def stub_tweets_def stub_user_def
        stub_nobody_def)
  have c: "stub_tweets \<noteq> JNull"
    by (simp add: stub_tweets_def)
  have d: "(0::int) < 900" by simp
  have e: "cache_dir (snd (write_cache stub_lib (stub_world ''nobody'') ''u'' stub_tweets))
           = cache_dir (stub_world ''nobody'')"
    by (simp add: write_cache_world)
  have g: "now (snd (write_cache stub_lib (stub_world ''nobody'') ''u'' stub_tweets))
             - now (stub_world ''nobody'') \<le> 900 * 1000000"
    by (simp add: write_cache_world)
  from cache_round_trip [OF a b c d refl e g] show ?thesis by blast
qed

text \<open>
  The claim as it was stated fails twice. The payload \<^verbatim>\<open>null\<close> is written and read back as
  \<^verbatim>\<open>None\<close>, which \<^verbatim>\<open>_get\<close> takes for a miss; and a write that fails is swallowed, so the
  next \<^verbatim>\<open>_get\<close> finds no entry. In both worlds the network answers with another document,
  and that is what \<^verbatim>\<open>_get\<close> returns, as a miss.
\<close>

theorem cache_round_trip_counterexample:
  "fst (get stub_lib (snd (write_cache stub_lib (stub_world ''tweets'') ''u'' JNull)) ''u'' 900 False)
     = Inr (stub_tweets, False)
   \<and> fst (get stub_lib (snd (write_cache stub_lib (read_only_world ''tweets'') ''u'' stub_user))
        ''u'' 900 False)
     = Inr (stub_tweets, False)
   \<and> fst (get stub_lib (snd (write_cache stub_lib (stub_world ''tweets'') ''u'' JNull)) ''u'' 900 False)
     \<noteq> Inr (JNull, True)
   \<and> fst (get stub_lib (snd (write_cache stub_lib (read_only_world ''tweets'') ''u'' stub_user))
        ''u'' 900 False)
     \<noteq> Inr (stub_user, True)"
  by (simp add: get_fst fetch_fst write_cache_world consult_cache_def read_cache_def
      read_cache_try_def cache_path_def cache_key_def bearer_def
      read_only_world_def stub_world_def stub_lib_def stub_loads_def stub_dumps_def
      stub_tweets_def stub_user_def stub_nobody_def)

section \<open>The per-author listing\<close>




section \<open>Cost accounting\<close>

lemma reads_of_hit: "reads_of raw True = Inr 0"
  by (simp add: reads_of_def)




















section \<open>Filtering\<close>

lemma metric_missing_metrics:
  "map_of kvs ''public_metrics'' = None \<Longrightarrow> metric L (JDict kvs) key = Inr 0"
  by (simp add: metric_def py_or_def)

lemma metric_of_value:
  assumes "map_of kvs ''public_metrics'' = Some (JDict ms)"
  shows "metric L (JDict kvs) key =
     (case py_int L (py_or (case map_of ms key of None \<Rightarrow> JNull | Some v \<Rightarrow> v) (JInt 0)) of
        Inl e \<Rightarrow> if is_TypeError e \<or> is_ValueError e then Inr 0 else Inl e
      | Inr n \<Rightarrow> Inr n)"
  using assms by (cases ms) (simp_all add: metric_def py_or_def)

lemma metric_absent_or_unparseable:
  assumes "map_of kvs ''public_metrics'' = Some (JDict ms)"
  shows "map_of ms key = None \<Longrightarrow> metric L (JDict kvs) key = Inr 0"
    and "map_of ms key = Some JNull \<Longrightarrow> metric L (JDict kvs) key = Inr 0"
    and "map_of ms key = Some (JList xs) \<Longrightarrow> metric L (JDict kvs) key = Inr 0"
    and "map_of ms key = Some (JDict ys) \<Longrightarrow> metric L (JDict kvs) key = Inr 0"
    and "map_of ms key = Some (JFloat NaN) \<Longrightarrow> metric L (JDict kvs) key = Inr 0"
    and "map_of ms key = Some (JStr s) \<Longrightarrow> int_of_str L s = None
           \<Longrightarrow> metric L (JDict kvs) key = Inr 0"
    and "map_of ms key = Some (JInt n) \<Longrightarrow> metric L (JDict kvs) key = Inr n"
  using assms
  by (simp_all add: metric_of_value py_or_def int_type_error_def)

lemma filter_tweets_keeps:
  assumes "\<forall>t\<in>set ts. metric L t ''like_count'' = Inr (likes t)
                     \<and> metric L t ''reply_count'' = Inr (replies t)
                     \<and> metric L t ''retweet_count'' = Inr (retweets t)"
  shows "filter_tweets L ts min_likes min_replies min_retweets
     = Inr (filter (\<lambda>t. min_likes \<le> likes t \<and> min_replies \<le> replies t
                          \<and> min_retweets \<le> retweets t) ts)"
  using assms by (induction ts) (auto simp: keep_def)

lemma filter_tweets_monotone:
  assumes "\<forall>t\<in>set ts. metric L t ''like_count'' = Inr (likes t)
                     \<and> metric L t ''reply_count'' = Inr (replies t)
                     \<and> metric L t ''retweet_count'' = Inr (retweets t)"
    and "a \<le> a'" "b \<le> b'" "c \<le> c'"
    and "filter_tweets L ts a b c = Inr lo" "filter_tweets L ts a' b' c' = Inr hi"
  shows "set hi \<subseteq> set lo"
  using assms(2-6) unfolding filter_tweets_keeps [OF assms(1)] by auto

text \<open>
  C3 at the input where the program departs from it. The like count of the item is a value
  that \<^verbatim>\<open>int()\<close> cannot convert, the float infinity; the claim counts it as zero, so that
  the item passes the minimum 0 and is kept. \<^verbatim>\<open>int(float("inf"))\<close> raises
  \<^verbatim>\<open>OverflowError\<close>, which is neither a \<^verbatim>\<open>TypeError\<close> nor a \<^verbatim>\<open>ValueError\<close>: \<^verbatim>\<open>_metric\<close>,
  \<^verbatim>\<open>_filter_tweets\<close> and the ranking raise it, whatever the minimum. The float NaN, which
  \<^verbatim>\<open>int()\<close> rejects with a \<^verbatim>\<open>ValueError\<close>, does count as zero.
\<close>

theorem infinite_metric_raises:
  "metric L infinite_likes ''like_count''
     = Inl (Exn OverflowError ''cannot convert float infinity to integer'')
   \<and> filter_tweets L [infinite_likes] 0 0 0
     = Inl (Exn OverflowError ''cannot convert float infinity to integer'')
   \<and> filter_tweets L [infinite_likes] min_likes min_replies min_retweets
     = Inl (Exn OverflowError ''cannot convert float infinity to integer'')
   \<and> rank L (JDict [(''data'', JList [infinite_likes])]) limit mode 0 0 0
     = Inl (Exn OverflowError ''cannot convert float infinity to integer'')
   \<and> metric L (JDict [(''public_metrics'', JDict [(''like_count'', JFloat NaN)])]) ''like_count''
     = Inr 0"
  by (simp add: infinite_likes_def metric_def py_or_def keep_def rank_def)

section \<open>The time window\<close>

text \<open>
  C8 at the inputs where the program departs from it. \<^verbatim>\<open>--since abc\<close> is rejected with
  the message that names the format, exit code 2. \<^verbatim>\<open>--since xh\<close> ends in \<^verbatim>\<open>h\<close>, so
  \<^verbatim>\<open>float("x")\<close> is called; its \<^verbatim>\<open>ValueError\<close> is what \<^verbatim>\<open>main\<close> reports, with exit code 2
  and whatever message \<^verbatim>\<open>float\<close> gave (\<open>m\<close>): the format is not named. \<^verbatim>\<open>--since infh\<close> is
  a number and a unit; \<^verbatim>\<open>timedelta(hours=inf)\<close> raises \<^verbatim>\<open>OverflowError\<close>, and \<^verbatim>\<open>main\<close>
  reports an \<^verbatim>\<open>internal_error\<close> with exit code 1. No request is sent in any of the three.
\<close>

theorem since_outside_the_format:
  "main L w (Search ''test'' 15 ''likes'' (Some ''abc'') 0 0 0 False)
     = ((2, error_payload ''invalid_arguments'' ''--since must be like 1h, 3h, 12h, 1d, 7d''), w)
   \<and> main (L\<lparr>float_of_str := (float_of_str L)(''x'' := Inl m)\<rparr>) w
        (Search ''test'' 15 ''likes'' (Some ''xh'') 0 0 0 False)
     = ((2, error_payload ''invalid_arguments'' m), w)
   \<and> main (L\<lparr>float_of_str := (float_of_str L)(''inf'' := Inr PosInf),
               timedelta_hours := (timedelta_hours L)
                 (PosInf := Inl (Exn OverflowError ''cannot convert float infinity to integer''))\<rparr>)
        w (Search ''test'' 15 ''likes'' (Some ''infh'') 0 0 0 False)
     = ((1, error_payload ''internal_error''
              ''OverflowError: cannot convert float infinity to integer''), w)"
  by (simp add: main_def search_recent_def start_time_of_def parse_since_def strip_def
      is_space_def lower_def lower_char_def ends_with_def Let_def)

section \<open>The cache key\<close>


text \<open>The second test vector of the standard, a message of two blocks.\<close>

lemma sha256_two_blocks:
  "sha256_hex ''abcdbcdecdefdefgefghfghighijhijkijkljklmklmnlmnomnopnopq''
     = ''248d6a61d20638b8e5c026930c3e6039a33ce45964ff2167f6ecedd419db06c1''"
  by code_simp








section \<open>The ranking as a whole\<close>

lemma metric_returns_dict: "metric L t key = Inr n \<Longrightarrow> \<exists>kvs. t = JDict kvs"
  by (cases t) (simp_all add: metric_def)

lemma created_at_of_dict: "\<exists>c. created_at L (JDict kvs) = Inr c"
  by (simp add: created_at_def)

lemma kept_has_key:
  assumes "keep L min_likes min_replies min_retweets t = Inr True"
  shows "\<exists>k. sort_key_of L t mode = Inr k"
proof -
  obtain a where a: "metric L t ''like_count'' = Inr a"
    using assms by (cases "metric L t ''like_count''") (auto simp: keep_def)
  obtain b where b: "metric L t ''reply_count'' = Inr b"
    using assms a by (cases "metric L t ''reply_count''") (auto simp: keep_def split: if_splits)
  obtain c where c: "metric L t ''retweet_count'' = Inr c"
    using assms a b
    by (cases "metric L t ''retweet_count''") (auto simp: keep_def split: if_splits)
  obtain kvs where "t = JDict kvs" using metric_returns_dict [OF a] by blast
  then obtain d where d: "created_at L t = Inr d" using created_at_of_dict by blast
  show ?thesis
    using a b c d by (simp add: sort_key_of_def key3_def Let_def)
qed

lemma filter_tweets_kept:
  "filter_tweets L ts min_likes min_replies min_retweets = Inr kept \<Longrightarrow>
     \<forall>t\<in>set kept. keep L min_likes min_replies min_retweets t = Inr True"
proof (induction ts arbitrary: kept)
  case Nil
  then show ?case by simp
next
  case (Cons t ts)
  then show ?case
    by (auto split: sum.splits if_splits)
qed

lemma sort_after_filter_returns:
  assumes "filter_tweets L ts min_likes min_replies min_retweets = Inr kept"
  shows "\<exists>out. sort_tweets L mode kept = Inr out"
proof -
  define key where "key t = (case sort_key_of L t mode of Inr k \<Rightarrow> k | Inl e \<Rightarrow> Key1 [])" for t
  have "\<forall>t\<in>set kept. sort_key_of L t mode = Inr (key t)"
  proof
    fix t assume "t \<in> set kept"
    then have "keep L min_likes min_replies min_retweets t = Inr True"
      using filter_tweets_kept [OF assms] by blast
    then obtain k where "sort_key_of L t mode = Inr k" using kept_has_key by blast
    then show "sort_key_of L t mode = Inr (key t)" by (simp add: key_def)
  qed
  then show ?thesis using sort_tweets_total by blast
qed

end
